theory Spec2Isabelle
  imports Main "HOL-Library.Char_ord"
begin

section \<open>Values exchanged with the backend\<close>

text \<open>
  Request and response bodies are Python objects obtained from JSON: \<open>None\<close>, booleans,
  integers, strings, lists and dictionaries with string keys. A dictionary keeps its
  insertion order and has pairwise distinct keys, so it is an association list here.
  Floating-point numbers do not occur in any function modelled below.
\<close>

datatype json =
    JNull
  | JBool bool
  | JInt int
  | JStr string
  | JList "json list"
  | JDict "(string \<times> json) list"

text \<open>Python's truth value of an object (\<open>if access_token:\<close>, \<open>if self.community_id:\<close>).\<close>

fun truthy :: "json \<Rightarrow> bool" where
  "truthy JNull = False"
| "truthy (JBool b) = b"
| "truthy (JInt n) = (n \<noteq> 0)"
| "truthy (JStr s) = (s \<noteq> [])"
| "truthy (JList xs) = (xs \<noteq> [])"
| "truthy (JDict kvs) = (kvs \<noteq> [])"

text \<open>\<open>isinstance(v, dict)\<close>.\<close>

fun is_dict :: "json \<Rightarrow> bool" where
  "is_dict (JDict kvs) = True"
| "is_dict v = False"

subsection \<open>String helpers\<close>

text \<open>
  \<open>str.lower()\<close> on the ASCII letters; every other character is left as it is.
\<close>

definition lower_char :: "char \<Rightarrow> char" where
  "lower_char c =
     (let n = (of_char c :: nat) in if 65 \<le> n \<and> n \<le> 90 then char_of (n + 32) else c)"

definition lower :: "string \<Rightarrow> string" where
  "lower s = map lower_char s"


text \<open>\<open>s.rstrip(ch)\<close> and \<open>s.lstrip(ch)\<close> for a single character.\<close>

definition rstrip :: "char \<Rightarrow> string \<Rightarrow> string" where
  "rstrip ch s = rev (dropWhile (\<lambda>c. c = ch) (rev s))"

definition lstrip :: "char \<Rightarrow> string \<Rightarrow> string" where
  "lstrip ch s = dropWhile (\<lambda>c. c = ch) s"

section \<open>The API client (utils/api\_client.py)\<close>

subsection \<open>Masking of logged bodies\<close>





text \<open>Following a path of keys through nested dictionaries (\<open>body[k1][k2]...\<close>).\<close>

fun lookup_path :: "string list \<Rightarrow> json \<Rightarrow> json option" where
  "lookup_path [] v = Some v"
| "lookup_path (k # ks) (JDict kvs) =
     (case map_of kvs k of None \<Rightarrow> None | Some v \<Rightarrow> lookup_path ks v)"
| "lookup_path (k # ks) v = None"


subsection \<open>Session state\<close>

text \<open>
  The headers of a \<open>requests.Session\<close> are a case-insensitive dictionary: an entry is
  found under the lower-cased name, and remembers the name it was last set with.
\<close>

type_synonym headers = "string \<rightharpoonup> (string \<times> string)"

definition headers_set :: "headers \<Rightarrow> string \<Rightarrow> string \<Rightarrow> headers" where
  "headers_set h name v = h(lower name \<mapsto> (name, v))"

text \<open>\<open>headers.pop(name, None)\<close>: removes the entry if there is one, never raises.\<close>

definition headers_pop :: "headers \<Rightarrow> string \<Rightarrow> headers" where
  "headers_pop h name = h(lower name := None)"

definition headers_get :: "headers \<Rightarrow> string \<Rightarrow> string option" where
  "headers_get h name = map_option snd (h (lower name))"

definition headers_contains :: "headers \<Rightarrow> string \<Rightarrow> bool" where
  "headers_contains h name = (h (lower name) \<noteq> None)"

text \<open>\<open>headers.update({...})\<close>\<close>

fun headers_merge :: "headers \<Rightarrow> (string \<times> string) list \<Rightarrow> headers" where
  "headers_merge h [] = h"
| "headers_merge h ((name, v) # kvs) = headers_merge (headers_set h name v) kvs"

record cookie =
  cookie_name :: string
  cookie_value :: string
  cookie_domain :: string
  cookie_path :: string

record Session =
  headers :: headers
  cookies :: "cookie list"

record client =
  base_url :: string
  session :: Session

text \<open>
  \<open>config.settings\<close> is not part of the sources; the values the client reads from it
  are parameters. The timeout is kept in milliseconds (\<open>settings.timeouts.API_REQUEST\<close>);
  the source hands it to the transport in seconds.
\<close>

record settings =
  default_headers :: "(string \<times> string) list"
  base_api :: string
  API_REQUEST :: int

text \<open>
  \<open>BaseAPIClient.__init__\<close>; \<open>lib_headers\<close> are the headers a fresh
  \<open>requests.Session()\<close> starts with.
\<close>

definition BaseAPIClient_init :: "(string \<times> string) list \<Rightarrow> settings \<Rightarrow> string \<Rightarrow> client" where
  "BaseAPIClient_init lib_headers st url =
     \<lparr>base_url = rstrip CHR ''/'' url,
      session = \<lparr>headers =
                   headers_merge (headers_merge Map.empty lib_headers)
                     (default_headers st @ [(''Content-Type'', ''application/json'')]),
                 cookies = []\<rparr>\<rparr>"

subsection \<open>Requests and the response envelope\<close>

record kwargs =
  kw_json :: "json option"
  kw_params :: "(string \<times> json) list option"
  kw_timeout :: "int option"

definition no_kwargs :: kwargs where
  "no_kwargs = \<lparr>kw_json = None, kw_params = None, kw_timeout = None\<rparr>"

text \<open>
  What the transport hands back: the status code, the result of \<open>response.json()\<close>
  (\<open>None\<close> when the body does not parse) and \<open>response.text\<close>.
\<close>

record Response =
  r_status_code :: int
  r_json :: "json option"
  r_text :: string

datatype error = RequestException string | AttributeError

text \<open>
  \<open>session.request(method, url, **kwargs)\<close> is the HTTP library and the server behind it:
  it either raises or returns a response, and leaves the cookies the server set in the
  session's jar. It is a parameter of every call.
\<close>

type_synonym transport = "Session \<Rightarrow> string \<Rightarrow> string \<Rightarrow> kwargs \<Rightarrow> error + (Response \<times> cookie list)"

text \<open>
  \<open>Response.ok\<close> of the HTTP library: \<open>raise_for_status()\<close> raises exactly for
  \<open>400 <= status_code < 500\<close> and \<open>500 <= status_code < 600\<close>, and \<open>ok\<close> is true
  when it does not raise.
\<close>

definition Response_ok :: "Response \<Rightarrow> bool" where
  "Response_ok r =
     (\<not> ((400 \<le> r_status_code r \<and> r_status_code r < 500)
         \<or> (500 \<le> r_status_code r \<and> r_status_code r < 600)))"

record APIResponse =
  status_code :: int
  data :: json
  success :: bool
  raw_response :: Response

text \<open>The \<open>json\<close> property of the envelope.\<close>

definition APIResponse_json :: "APIResponse \<Rightarrow> json" where
  "APIResponse_json r = (if is_dict (data r) then data r else JDict [])"

text \<open>
  \<open>BaseAPIClient._request\<close>. An exception of the transport is logged and raised again.
  The calls to the logger write to an external sink and change nothing in the client.
\<close>

definition join_url :: "client \<Rightarrow> string \<Rightarrow> string" where
  "join_url c endpoint = base_url c @ ''/'' @ lstrip CHR ''/'' endpoint"

text \<open>\<open>kwargs.setdefault('timeout', ...)\<close>\<close>

definition setdefault_timeout :: "settings \<Rightarrow> kwargs \<Rightarrow> kwargs" where
  "setdefault_timeout st kw =
     (case kw_timeout kw of None \<Rightarrow> kw\<lparr>kw_timeout := Some (API_REQUEST st)\<rparr> | Some t \<Rightarrow> kw)"

definition request :: "transport \<Rightarrow> settings \<Rightarrow> client \<Rightarrow> string \<Rightarrow> string \<Rightarrow> kwargs
    \<Rightarrow> error + (client \<times> APIResponse)" where
  "request send st c method endpoint kw =
     (case send (session c) method (join_url c endpoint) (setdefault_timeout st kw) of
        Inl e \<Rightarrow> Inl e
      | Inr (response, jar) \<Rightarrow>
          Inr (c\<lparr>session := (session c)\<lparr>cookies := jar\<rparr>\<rparr>,
               \<lparr>status_code = r_status_code response,
                data = (case r_json response of Some j \<Rightarrow> j | None \<Rightarrow> JStr (r_text response)),
                success = Response_ok response,
                raw_response = response\<rparr>))"

definition post :: "transport \<Rightarrow> settings \<Rightarrow> client \<Rightarrow> string \<Rightarrow> kwargs \<Rightarrow> error + (client \<times> APIResponse)" where
  "post send st c endpoint kw = request send st c ''POST'' endpoint kw"

definition get :: "transport \<Rightarrow> settings \<Rightarrow> client \<Rightarrow> string \<Rightarrow> kwargs \<Rightarrow> error + (client \<times> APIResponse)" where
  "get send st c endpoint kw = request send st c ''GET'' endpoint kw"

subsection \<open>Authentication endpoints\<close>

text \<open>\<open>d.get(key, default)\<close>: only a dictionary has the method.\<close>

fun dict_get :: "json \<Rightarrow> string \<Rightarrow> json \<Rightarrow> error + json" where
  "dict_get (JDict kvs) k d = Inr (case map_of kvs k of None \<Rightarrow> d | Some v \<Rightarrow> v)"
| "dict_get v k d = Inl AttributeError"

text \<open>
  The text an f-string puts in for a value: a string stands for itself; for any other
  object it is Python's \<open>str()\<close> of it, the parameter \<open>py_str\<close>.
\<close>

fun format_value :: "(json \<Rightarrow> string) \<Rightarrow> json \<Rightarrow> string" where
  "format_value py_str (JStr s) = s"
| "format_value py_str v = py_str v"

text \<open>\<open>AuthAPI.login\<close>\<close>

definition login :: "transport \<Rightarrow> (json \<Rightarrow> string) \<Rightarrow> settings \<Rightarrow> client \<Rightarrow> string \<Rightarrow> string
    \<Rightarrow> error + (client \<times> APIResponse)" where
  "login send py_str st c email_or_username password =
     (case post send st c ''auth/login''
             (no_kwargs\<lparr>kw_json := Some (JDict [(''emailOrUsername'', JStr email_or_username),
                                                 (''password'', JStr password)])\<rparr>) of
        Inl e \<Rightarrow> Inl e
      | Inr (c', response) \<Rightarrow>
          if success response then
            (case dict_get (APIResponse_json response) ''data'' (JDict []) of
               Inl e \<Rightarrow> Inl e
             | Inr d \<Rightarrow>
                 (case dict_get d ''accessToken'' JNull of
                    Inl e \<Rightarrow> Inl e
                  | Inr access_token \<Rightarrow>
                      if truthy access_token then
                        Inr (c'\<lparr>session := (session c')\<lparr>headers :=
                                 headers_set (headers (session c')) ''Authorization''
                                   (''Bearer '' @ format_value py_str access_token)\<rparr>\<rparr>,
                             response)
                      else Inr (c', response)))
          else Inr (c', response))"

text \<open>\<open>AuthAPI.logout\<close>\<close>

definition logout :: "transport \<Rightarrow> settings \<Rightarrow> client \<Rightarrow> error + (client \<times> APIResponse)" where
  "logout send st c =
     (case post send st c ''auth/logout'' no_kwargs of
        Inl e \<Rightarrow> Inl e
      | Inr (c', response) \<Rightarrow>
          Inr (c'\<lparr>session := (session c')\<lparr>headers :=
                   headers_pop (headers (session c')) ''Authorization''\<rparr>\<rparr>,
               response))"

subsection \<open>The whole client\<close>

text \<open>\<open>BlogAPIClient.get_cookies\<close>: a later cookie of the same name replaces an earlier one.\<close>

definition get_cookies :: "client \<Rightarrow> (string \<rightharpoonup> string)" where
  "get_cookies c = fold (\<lambda>ck m. m(cookie_name ck \<mapsto> cookie_value ck)) (cookies (session c)) Map.empty"

text \<open>\<open>BlogAPIClient.clear_session\<close>: \<open>self.session.cookies.clear()\<close> and nothing else.\<close>

definition clear_session :: "client \<Rightarrow> client" where
  "clear_session c = c\<lparr>session := (session c)\<lparr>cookies := []\<rparr>\<rparr>"

section \<open>Test data builders (utils/data\_builder.py)\<close>

datatype BlogPostType = PERSONAL | COMMUNITY | REPOST

fun BlogPostType_value :: "BlogPostType \<Rightarrow> string" where
  "BlogPostType_value PERSONAL = ''PERSONAL''"
| "BlogPostType_value COMMUNITY = ''COMMUNITY''"
| "BlogPostType_value REPOST = ''REPOST''"

datatype BlockType = TEXT | IMAGE | VIDEO | CODE | QUOTE

fun BlockType_value :: "BlockType \<Rightarrow> string" where
  "BlockType_value TEXT = ''TEXT''"
| "BlockType_value IMAGE = ''IMAGE''"
| "BlockType_value VIDEO = ''VIDEO''"
| "BlockType_value CODE = ''CODE''"
| "BlockType_value QUOTE = ''QUOTE''"

text \<open>
  The random text generator \<open>fake = Faker()\<close> is an external library. Its state is of
  a type \<open>'g\<close>, and each of its methods returns a string together with the next state.
\<close>

record 'g faker =
  fake_paragraph :: "'g \<Rightarrow> string \<times> 'g"
  fake_image_url :: "'g \<Rightarrow> string \<times> 'g"
  fake_sentence :: "nat \<Rightarrow> 'g \<Rightarrow> string \<times> 'g"

subsection \<open>Blocks\<close>

text \<open>The fields \<open>type\<close>, \<open>content\<close>, \<open>x\<close>, \<open>y\<close>, \<open>width\<close> and \<open>height\<close> carry the prefix \<open>b_\<close>.\<close>

record BlockData =
  b_type :: string
  b_content :: string
  b_x :: int
  b_y :: int
  b_width :: int
  b_height :: int
  image_caption :: "string option"
  object_fit :: "string option"

text \<open>An optional entry of a serialised mapping: written only when the string is set and not empty.\<close>

fun optional_str :: "string \<Rightarrow> string option \<Rightarrow> (string \<times> json) list" where
  "optional_str k None = []"
| "optional_str k (Some s) = (if s \<noteq> [] then [(k, JStr s)] else [])"

text \<open>The same for an integer: \<open>if self.community_id:\<close> is false for \<open>None\<close> and for \<open>0\<close>.\<close>

fun optional_int :: "string \<Rightarrow> int option \<Rightarrow> (string \<times> json) list" where
  "optional_int k None = []"
| "optional_int k (Some n) = (if n \<noteq> 0 then [(k, JInt n)] else [])"

definition BlockData_to_dict :: "BlockData \<Rightarrow> (string \<times> json) list" where
  "BlockData_to_dict b =
     [(''type'', JStr (b_type b)),
      (''content'', JStr (b_content b)),
      (''x'', JInt (b_x b)),
      (''y'', JInt (b_y b)),
      (''width'', JInt (b_width b)),
      (''height'', JInt (b_height b))]
     @ optional_str ''imageCaption'' (image_caption b)
     @ optional_str ''objectFit'' (object_fit b)"

text \<open>\<open>BlockBuilder\<close>: the builder is its draft \<open>_data\<close>.\<close>

definition BlockBuilder_init :: BlockData where
  "BlockBuilder_init =
     \<lparr>b_type = BlockType_value TEXT, b_content = [], b_x = 0, b_y = 0, b_width = 12,
      b_height = 100, image_caption = None, object_fit = None\<rparr>"

definition as_text :: "BlockData \<Rightarrow> BlockData" where
  "as_text b = b\<lparr>b_type := BlockType_value TEXT\<rparr>"


definition as_code :: "BlockData \<Rightarrow> BlockData" where
  "as_code b = b\<lparr>b_type := BlockType_value CODE\<rparr>"

definition as_quote :: "BlockData \<Rightarrow> BlockData" where
  "as_quote b = b\<lparr>b_type := BlockType_value QUOTE\<rparr>"


definition with_random_text :: "'g faker \<Rightarrow> 'g \<Rightarrow> BlockData \<Rightarrow> BlockData \<times> 'g" where
  "with_random_text F g b = (let (s, g') = fake_paragraph F g in (b\<lparr>b_content := s\<rparr>, g'))"

definition with_random_image_url :: "'g faker \<Rightarrow> 'g \<Rightarrow> BlockData \<Rightarrow> BlockData \<times> 'g" where
  "with_random_image_url F g b = (let (s, g') = fake_image_url F g in (b\<lparr>b_content := s\<rparr>, g'))"

definition at_position :: "int \<Rightarrow> int \<Rightarrow> BlockData \<Rightarrow> BlockData" where
  "at_position x y b = b\<lparr>b_x := x, b_y := y\<rparr>"

definition with_size :: "int \<Rightarrow> int \<Rightarrow> BlockData \<Rightarrow> BlockData" where
  "with_size w h b = b\<lparr>b_width := w, b_height := h\<rparr>"

text \<open>
  \<open>BlockBuilder.build\<close>: the \<open>if\<close>/\<open>elif\<close> chain has the three branches TEXT, IMAGE and
  CODE and no \<open>else\<close>; \<open>fill_content\<close> is the draft after it.
\<close>

definition fill_content :: "'g faker \<Rightarrow> 'g \<Rightarrow> BlockData \<Rightarrow> BlockData \<times> 'g" where
  "fill_content F g b =
     (if b_content b = [] then
        (if b_type b = BlockType_value TEXT then
           (let (s, g') = fake_paragraph F g in (b\<lparr>b_content := s\<rparr>, g'))
         else if b_type b = BlockType_value IMAGE then
           (let (s, g') = fake_image_url F g in (b\<lparr>b_content := s\<rparr>, g'))
         else if b_type b = BlockType_value CODE then
           (b\<lparr>b_content := ''print('' @ [CHR 0x27] @ ''Hello World'' @ [CHR 0x27] @ '')''\<rparr>, g)
         else (b, g))
      else (b, g))"

definition BlockBuilder_build :: "'g faker \<Rightarrow> 'g \<Rightarrow> BlockData \<Rightarrow> (string \<times> json) list \<times> 'g" where
  "BlockBuilder_build F g b = (let (b', g') = fill_content F g b in (BlockData_to_dict b', g'))"

subsection \<open>Posts\<close>

text \<open>The field \<open>type\<close> is \<open>p_type\<close>.\<close>

record PostData =
  title :: string
  p_type :: string
  author_id :: int
  blocks :: "json list"
  community_id :: "int option"
  original_post_id :: "int option"
  hashtag_ids :: "int list"
  thumbnail_url :: "string option"

definition PostData_to_dict :: "PostData \<Rightarrow> (string \<times> json) list" where
  "PostData_to_dict p =
     [(''title'', JStr (title p)),
      (''type'', JStr (p_type p)),
      (''authorId'', JInt (author_id p)),
      (''blocks'', JList (blocks p))]
     @ optional_int ''communityId'' (community_id p)
     @ optional_int ''originalPostId'' (original_post_id p)
     @ (if hashtag_ids p \<noteq> [] then [(''hashtagIds'', JList (map JInt (hashtag_ids p)))] else [])
     @ optional_str ''thumbnailUrl'' (thumbnail_url p)"

definition PostBuilder_init :: PostData where
  "PostBuilder_init =
     \<lparr>title = [], p_type = BlogPostType_value PERSONAL, author_id = 0, blocks = [],
      community_id = None, original_post_id = None, hashtag_ids = [], thumbnail_url = None\<rparr>"

definition with_author :: "int \<Rightarrow> PostData \<Rightarrow> PostData" where
  "with_author a p = p\<lparr>author_id := a\<rparr>"

definition with_title :: "string \<Rightarrow> PostData \<Rightarrow> PostData" where
  "with_title t p = p\<lparr>title := t\<rparr>"

definition with_random_title :: "'g faker \<Rightarrow> 'g \<Rightarrow> PostData \<Rightarrow> PostData \<times> 'g" where
  "with_random_title F g p =
     (let (s, g') = fake_sentence F 6 g in (p\<lparr>title := rstrip CHR ''.'' s\<rparr>, g'))"


definition as_community :: "int \<Rightarrow> PostData \<Rightarrow> PostData" where
  "as_community cid p = p\<lparr>p_type := BlogPostType_value COMMUNITY, community_id := Some cid\<rparr>"




text \<open>One round of the loop in \<open>add_random_text_blocks\<close>, and the loop over \<open>range(count)\<close>.\<close>

definition add_random_text_block :: "'g faker \<Rightarrow> 'g \<Rightarrow> PostData \<Rightarrow> PostData \<times> 'g" where
  "add_random_text_block F g p =
     (let block_y = int (length (blocks p)) * 100;
          (b, g1) = with_random_text F g (as_text BlockBuilder_init);
          (block, g2) = BlockBuilder_build F g1 (with_size 12 100 (at_position 0 block_y b))
      in (p\<lparr>blocks := blocks p @ [JDict block]\<rparr>, g2))"

fun random_text_blocks_loop :: "'g faker \<Rightarrow> nat \<Rightarrow> 'g \<Rightarrow> PostData \<Rightarrow> PostData \<times> 'g" where
  "random_text_blocks_loop F 0 g p = (p, g)"
| "random_text_blocks_loop F (Suc n) g p =
     (let (p', g') = add_random_text_block F g p in random_text_blocks_loop F n g' p')"

text \<open>\<open>range(count)\<close> is empty for a count below one.\<close>

definition add_random_text_blocks :: "'g faker \<Rightarrow> 'g \<Rightarrow> int \<Rightarrow> PostData \<Rightarrow> PostData \<times> 'g" where
  "add_random_text_blocks F g count p = random_text_blocks_loop F (nat count) g p"


definition with_hashtags :: "int list \<Rightarrow> PostData \<Rightarrow> PostData" where
  "with_hashtags ids p = p\<lparr>hashtag_ids := ids\<rparr>"

definition with_thumbnail :: "string \<Rightarrow> PostData \<Rightarrow> PostData" where
  "with_thumbnail url p = p\<lparr>thumbnail_url := Some url\<rparr>"

text \<open>\<open>PostBuilder.build\<close>; \<open>fill_title\<close> is its first step, the draft with a title.\<close>

definition fill_title :: "'g faker \<Rightarrow> 'g \<Rightarrow> PostData \<Rightarrow> PostData \<times> 'g" where
  "fill_title F g p =
     (if title p = [] then
        (let (s, g') = fake_sentence F 6 g in (p\<lparr>title := rstrip CHR ''.'' s\<rparr>, g'))
      else (p, g))"

definition PostBuilder_build :: "'g faker \<Rightarrow> 'g \<Rightarrow> PostData \<Rightarrow> PostData \<times> 'g" where
  "PostBuilder_build F g p =
     (let (p1, g1) = fill_title F g p
      in if blocks p1 = [] then add_random_text_blocks F g1 1 p1 else (p1, g1))"





subsection \<open>Quick factories\<close>

definition create_quick_post :: "'g faker \<Rightarrow> 'g \<Rightarrow> int \<Rightarrow> int \<Rightarrow> PostData \<times> 'g" where
  "create_quick_post F g a blocks_count =
     (let (p1, g1) = with_random_title F g (with_author a PostBuilder_init);
          (p2, g2) = add_random_text_blocks F g1 blocks_count p1
      in PostBuilder_build F g2 p2)"

text \<open>The \<open>type\<close> entry of a serialised block.\<close>

fun block_type_of :: "json \<Rightarrow> json option" where
  "block_type_of (JDict kvs) = map_of kvs ''type''"
| "block_type_of v = None"

section \<open>Concrete inputs\<close>

text \<open>A generator that always returns the same texts; its state counts the calls.\<close>

definition fixed_faker :: "nat faker" where
  "fixed_faker =
     \<lparr>fake_paragraph = (\<lambda>g. (''Lorem ipsum dolor sit amet.'', Suc g)),
      fake_image_url = (\<lambda>g. (''https://picsum.photos/640/480'', Suc g)),
      fake_sentence = (\<lambda>n g. (''Quick brown fox.'', Suc g))\<rparr>"

definition test_settings :: settings where
  "test_settings = \<lparr>default_headers = [(''Accept'', ''application/json'')],
                    base_api = ''http://localhost:3000/api/'', API_REQUEST = 30000\<rparr>"

definition fresh_client :: client where
  "fresh_client = BaseAPIClient_init [] test_settings (base_api test_settings)"

text \<open>A client that carries a bearer token and a session cookie.\<close>

definition logged_in_client :: client where
  "logged_in_client =
     fresh_client\<lparr>session :=
       \<lparr>headers = headers_set (headers (session fresh_client)) ''Authorization'' ''Bearer abc'',
        cookies = [\<lparr>cookie_name = ''sid'', cookie_value = ''42'',
                    cookie_domain = ''localhost'', cookie_path = ''/''\<rparr>]\<rparr>\<rparr>"

text \<open>A post with nothing optional set, and one with a community, hashtags and a thumbnail.\<close>

definition plain_post :: PostData where
  "plain_post = with_title ''Hello'' PostBuilder_init"

definition sample_post :: PostData where
  "sample_post =
     with_thumbnail ''https://example.com/t.png''
       (with_hashtags [1, 2] (as_community 5 (with_title ''Hello'' PostBuilder_init)))"

text \<open>A login response that carries a token, and the client after that login.\<close>

definition token_body :: json where
  "token_body = JDict [(''data'', JDict [(''accessToken'', JStr ''tok123'')])]"

definition token_client :: client where
  "token_client =
     fresh_client\<lparr>session := (session fresh_client)\<lparr>headers :=
       headers_set (headers (session fresh_client)) ''Authorization'' ''Bearer tok123''\<rparr>\<rparr>"

text \<open>A server that answers every request with the given status and body and sets no cookie.\<close>

definition answer :: "int \<Rightarrow> json \<Rightarrow> transport" where
  "answer code body s method url kw =
     Inr (\<lparr>r_status_code = code, r_json = Some body, r_text = []\<rparr>, cookies s)"

text \<open>
  A stand-in for \<open>str()\<close>: the tokens of the examples below are strings, which an f-string
  copies without calling it.
\<close>

definition no_str :: "json \<Rightarrow> string" where
  "no_str v = []"

section \<open>Masking: no secret reaches the log\<close>


lemma lookup_path_dict:
  "lookup_path (k # ks) b = Some v \<Longrightarrow> \<exists>kvs. b = JDict kvs"
  by (cases b) auto








section \<open>The response envelope\<close>

text \<open>
  Claim C1, as the code has it. Whenever the transport yields a response, \<open>_request\<close>
  returns an envelope for it whose \<open>success\<close> is the library's \<open>Response.ok\<close>: true
  exactly when the status code is outside 400..599. It is true for every 2xx status and
  false for every 4xx and 5xx status, and it is a function of the status code alone: the
  body plays no part. (A status below 200, a 3xx status or one above 599 also gives
  \<open>success = true\<close>.)
\<close>

theorem request_success_from_status:
  assumes "send (session c) method (join_url c endpoint) (setdefault_timeout st kw) = Inr (response, jar)"
  shows "\<exists>c' r. request send st c method endpoint kw = Inr (c', r)
           \<and> raw_response r = response
           \<and> status_code r = r_status_code response
           \<and> (success r \<longleftrightarrow> \<not> (400 \<le> r_status_code response \<and> r_status_code response < 600))
           \<and> (200 \<le> r_status_code response \<and> r_status_code response \<le> 299 \<longrightarrow> success r)"
  using assms by (auto simp: request_def Response_ok_def)

theorem request_success_from_status_witness:
  "answer 404 (JDict [(''ok'', JBool True)]) (session fresh_client) ''GET'' (join_url fresh_client ''newsfeed'')
      (setdefault_timeout test_settings no_kwargs)
     = Inr (\<lparr>r_status_code = 404, r_json = Some (JDict [(''ok'', JBool True)]), r_text = []\<rparr>,
            cookies (session fresh_client))
   \<and> (\<exists>c' r. request (answer 404 (JDict [(''ok'', JBool True)])) test_settings fresh_client
                 ''GET'' ''newsfeed'' no_kwargs = Inr (c', r)
        \<and> status_code r = 404 \<and> \<not> success r)"
proof -
  have h: "answer 404 (JDict [(''ok'', JBool True)]) (session fresh_client) ''GET'' (join_url fresh_client ''newsfeed'')
      (setdefault_timeout test_settings no_kwargs)
     = Inr (\<lparr>r_status_code = 404, r_json = Some (JDict [(''ok'', JBool True)]), r_text = []\<rparr>,
            cookies (session fresh_client))"
    by (simp add: answer_def)
  from request_success_from_status[where send = "answer 404 (JDict [(''ok'', JBool True)])"
      and c = fresh_client and st = test_settings and kw = no_kwargs, OF h] h
  show ?thesis by auto
qed

text \<open>
  A response with status 304 (Not Modified) is not in the 2xx range, and its envelope has
  \<open>success = true\<close>.
\<close>

theorem request_success_counterexample:
  "request (answer 304 JNull) test_settings fresh_client ''GET'' ''newsfeed'' no_kwargs
     = Inr (fresh_client,
            \<lparr>status_code = 304, data = JNull, success = True,
             raw_response = \<lparr>r_status_code = 304, r_json = Some JNull, r_text = []\<rparr>\<rparr>)
   \<and> \<not> (200 \<le> (304::int) \<and> (304::int) \<le> 299)"
  by (simp add: request_def answer_def Response_ok_def)

section \<open>Clearing the session\<close>

text \<open>
  Claim C2, at a client that carries a bearer token and a cookie: after
  \<open>clear_session()\<close> the cookie jar is empty and the \<open>Authorization\<close> header is still
  installed with the same token.
\<close>

theorem clear_session_keeps_authorization:
  "headers_get (headers (session logged_in_client)) ''Authorization'' = Some ''Bearer abc''
   \<and> cookies (session (clear_session logged_in_client)) = []
   \<and> headers_get (headers (session (clear_session logged_in_client))) ''Authorization''
       = Some ''Bearer abc''
   \<and> headers_contains (headers (session (clear_session logged_in_client))) ''Authorization''"
  by (simp add: clear_session_def logged_in_client_def headers_get_def headers_contains_def
      headers_set_def)

lemma clear_session_twice: "clear_session (clear_session c) = clear_session c"
  by (simp add: clear_session_def)

lemma clear_session_headers: "headers (session (clear_session c)) = headers (session c)"
  by (simp add: clear_session_def)

text \<open>
  Claim C9, at a client that carries a bearer token and a cookie: calling
  \<open>clear_session()\<close> twice leaves the state that calling it once leaves, and that state
  has no cookies, but it is not unauthenticated: the \<open>Authorization\<close> header is still
  installed with the same token after both calls.
\<close>

theorem clear_session_twice_keeps_authorization:
  "clear_session (clear_session logged_in_client) = clear_session logged_in_client
   \<and> cookies (session (clear_session (clear_session logged_in_client))) = []
   \<and> headers_get (headers (session (clear_session (clear_session logged_in_client))))
         ''Authorization'' = Some ''Bearer abc''
   \<and> headers_contains (headers (session (clear_session (clear_session logged_in_client))))
         ''Authorization''"
  by (simp add: clear_session_def logged_in_client_def headers_get_def headers_contains_def
      headers_set_def)

section \<open>Login and logout\<close>

lemma headers_pop_not_contains: "\<not> headers_contains (headers_pop h name) name"
  by (simp add: headers_contains_def headers_pop_def)

lemma headers_get_set: "headers_get (headers_set h name v) name = Some v"
  by (simp add: headers_get_def headers_set_def)

lemma fresh_client_no_authorization:
  "\<not> headers_contains (headers (session fresh_client)) ''Authorization''"
  by code_simp

lemma post_Inr:
  "send (session c) ''POST'' (join_url c endpoint) (setdefault_timeout st kw) = Inr (response, jar) \<Longrightarrow>
   post send st c endpoint kw =
     Inr (c\<lparr>session := (session c)\<lparr>cookies := jar\<rparr>\<rparr>,
          \<lparr>status_code = r_status_code response,
           data = (case r_json response of Some j \<Rightarrow> j | None \<Rightarrow> JStr (r_text response)),
           success = Response_ok response,
           raw_response = response\<rparr>)"
  by (simp add: post_def request_def)

lemma logout_Inr_D:
  "logout send st c = Inr (c', r) \<Longrightarrow> \<not> headers_contains (headers (session c')) ''Authorization''"
  by (auto simp: logout_def headers_pop_not_contains split: sum.splits)

lemma login_token_installed:
  assumes "login send py_str st c e p = Inr (c', r)" "success r"
    "lookup_path [''data'', ''accessToken''] (data r) = Some tok" "truthy tok"
  shows "headers_get (headers (session c')) ''Authorization''
           = Some (''Bearer '' @ format_value py_str tok)"
proof -
  from assms(3) obtain kvs where d: "data r = JDict kvs" using lookup_path_dict by blast
  with assms(3) obtain dv where dv: "map_of kvs ''data'' = Some dv"
    and l2: "lookup_path [''accessToken''] dv = Some tok"
    by (auto split: option.splits)
  from l2 obtain kvs2 where d2: "dv = JDict kvs2" using lookup_path_dict by blast
  with l2 have t: "map_of kvs2 ''accessToken'' = Some tok" by (auto split: option.splits)
  from assms(1) obtain c1 where p: "post send st c ''auth/login''
             (no_kwargs\<lparr>kw_json := Some (JDict [(''emailOrUsername'', JStr e),
                                                 (''password'', JStr p)])\<rparr>) = Inr (c1, r)"
    by (auto simp: login_def split: sum.splits if_splits)
  from assms(1) p assms(2) d dv d2 t assms(4)
  have "c' = c1\<lparr>session := (session c1)\<lparr>headers :=
                 headers_set (headers (session c1)) ''Authorization''
                   (''Bearer '' @ format_value py_str tok)\<rparr>\<rparr>"
    by (simp add: login_def APIResponse_json_def)
  then show ?thesis by (simp add: headers_get_set)
qed

lemma post_headers:
  "post send st c endpoint kw = Inr (c1, r) \<Longrightarrow> headers (session c1) = headers (session c)"
  by (auto simp: post_def request_def split: sum.splits)

lemma login_no_token_headers:
  assumes "login send py_str st c e p = Inr (c', r)"
    and "\<not> (\<exists>tok. lookup_path [''data'', ''accessToken''] (data r) = Some tok \<and> truthy tok)"
  shows "headers (session c') = headers (session c)"
proof -
  from assms(1) obtain c1 where p: "post send st c ''auth/login''
             (no_kwargs\<lparr>kw_json := Some (JDict [(''emailOrUsername'', JStr e),
                                                 (''password'', JStr p)])\<rparr>) = Inr (c1, r)"
    by (auto simp: login_def split: sum.splits if_splits)
  have "c' = c1"
  proof (cases "data r")
    case (JDict kvs)
    show ?thesis
    proof (cases "map_of kvs ''data''")
      case None
      with assms(1) p JDict show ?thesis
        by (auto simp: login_def APIResponse_json_def split: if_splits)
    next
      case (Some dv)
      with assms p JDict show ?thesis
        by (cases dv) (auto simp: login_def APIResponse_json_def split: if_splits option.splits)
    qed
  qed (use assms(1) p in \<open>auto simp: login_def APIResponse_json_def split: if_splits\<close>)
  with post_headers[OF p] show ?thesis by simp
qed

lemma login_failure_headers:
  assumes "login send py_str st c e p = Inr (c', r)" "\<not> success r"
  shows "headers (session c') = headers (session c)"
proof -
  from assms(1) obtain c1 where p: "post send st c ''auth/login''
             (no_kwargs\<lparr>kw_json := Some (JDict [(''emailOrUsername'', JStr e),
                                                 (''password'', JStr p)])\<rparr>) = Inr (c1, r)"
    by (auto simp: login_def split: sum.splits if_splits)
  with assms have "c' = c1" by (simp add: login_def)
  with post_headers[OF p] show ?thesis by simp
qed

lemma login_empty_data_logged_in:
  "\<exists>c0 r0. login (answer 200 (JDict [(''data'', JDict [])])) no_str test_settings logged_in_client
       ''user@example.com'' ''Test@12345'' = Inr (c0, r0)
     \<and> success r0 \<and> data r0 = JDict [(''data'', JDict [])]"
  by (simp add: login_def post_def request_def answer_def Response_ok_def APIResponse_json_def)

lemma login_token_body:
  "login (answer 200 token_body) no_str test_settings fresh_client ''user@example.com'' ''Test@12345''
     = Inr (token_client,
            \<lparr>status_code = 200, data = token_body, success = True,
             raw_response = \<lparr>r_status_code = 200, r_json = Some token_body, r_text = []\<rparr>\<rparr>)"
  by (simp add: login_def post_def request_def answer_def Response_ok_def APIResponse_json_def
      token_body_def token_client_def no_kwargs_def)

lemma logout_token_client:
  "\<exists>c'' r'. logout (answer 200 JNull) test_settings token_client = Inr (c'', r')"
  by (simp add: logout_def post_def request_def answer_def)

text \<open>
  Claim C4, as the code has it. After \<open>login\<close> returns a success envelope whose body is
  a mapping with a non-empty \<open>accessToken\<close> under \<open>data\<close>, the default headers hold
  \<open>Authorization\<close> with the value \<open>Bearer\<close> followed by that token. When the envelope
  that \<open>login\<close> returns is not a success, or carries no such token, \<open>login\<close> installs
  nothing: the default headers are the ones from before the call. After \<open>logout\<close>
  returns, no \<open>Authorization\<close> entry is present.
\<close>

theorem login_installs_bearer_logout_removes:
  "(login send py_str st c e p = Inr (c', r) \<and> success r
      \<and> lookup_path [''data'', ''accessToken''] (data r) = Some tok \<and> truthy tok
     \<longrightarrow> headers_get (headers (session c')) ''Authorization''
           = Some (''Bearer '' @ format_value py_str tok))
   \<and> (login send py_str st c e p = Inr (c', r)
      \<and> \<not> (success r
            \<and> (\<exists>t. lookup_path [''data'', ''accessToken''] (data r) = Some t \<and> truthy t))
     \<longrightarrow> headers (session c') = headers (session c))
   \<and> (logout send' st c' = Inr (c'', r')
     \<longrightarrow> \<not> headers_contains (headers (session c'')) ''Authorization'')"
  using login_token_installed[of send py_str st c e p c' r tok]
    login_no_token_headers[of send py_str st c e p c' r]
    login_failure_headers[of send py_str st c e p c' r]
    logout_Inr_D[of send' st c' c'' r']
  by blast

theorem login_installs_bearer_logout_removes_witness:
  "(\<exists>c' r c'' r'.
     login (answer 200 token_body) no_str test_settings fresh_client ''user@example.com'' ''Test@12345''
       = Inr (c', r)
     \<and> success r
     \<and> lookup_path [''data'', ''accessToken''] (data r) = Some (JStr ''tok123'')
     \<and> truthy (JStr ''tok123'')
     \<and> headers_get (headers (session c')) ''Authorization'' = Some ''Bearer tok123''
     \<and> logout (answer 200 JNull) test_settings c' = Inr (c'', r')
     \<and> \<not> headers_contains (headers (session c'')) ''Authorization'')
   \<and> (\<exists>c0 r0.
     login (answer 200 (JDict [(''data'', JDict [])])) no_str test_settings logged_in_client
         ''user@example.com'' ''Test@12345'' = Inr (c0, r0)
     \<and> success r0
     \<and> lookup_path [''data'', ''accessToken''] (data r0) = None
     \<and> headers (session c0) = headers (session logged_in_client))"
proof -
  let ?r = "\<lparr>status_code = 200, data = token_body, success = True,
             raw_response = \<lparr>r_status_code = 200, r_json = Some token_body, r_text = []\<rparr>\<rparr>"
  obtain c'' r' where out: "logout (answer 200 JNull) test_settings token_client = Inr (c'', r')"
    using logout_token_client by blast
  have s: "success ?r" by simp
  have l: "lookup_path [''data'', ''accessToken''] (data ?r) = Some (JStr ''tok123'')"
    by (simp add: token_body_def)
  have t: "truthy (JStr ''tok123'')" by simp
  from login_installs_bearer_logout_removes[of "answer 200 token_body" no_str test_settings
      fresh_client "''user@example.com''" "''Test@12345''" token_client ?r "JStr ''tok123''"
      "answer 200 JNull" c'' r']
    login_token_body out s l t
  have "headers_get (headers (session token_client)) ''Authorization'' = Some ''Bearer tok123''"
    and "\<not> headers_contains (headers (session c'')) ''Authorization''"
    by simp_all
  with login_token_body out s l t have first: "\<exists>c' r c'' r'.
     login (answer 200 token_body) no_str test_settings fresh_client ''user@example.com'' ''Test@12345''
       = Inr (c', r)
     \<and> success r
     \<and> lookup_path [''data'', ''accessToken''] (data r) = Some (JStr ''tok123'')
     \<and> truthy (JStr ''tok123'')
     \<and> headers_get (headers (session c')) ''Authorization'' = Some ''Bearer tok123''
     \<and> logout (answer 200 JNull) test_settings c' = Inr (c'', r')
     \<and> \<not> headers_contains (headers (session c'')) ''Authorization''"
    by blast
  obtain c0 r0 where in0: "login (answer 200 (JDict [(''data'', JDict [])])) no_str test_settings
      logged_in_client ''user@example.com'' ''Test@12345'' = Inr (c0, r0)"
    and s0: "success r0" and d0: "data r0 = JDict [(''data'', JDict [])]"
    using login_empty_data_logged_in by blast
  have l0: "lookup_path [''data'', ''accessToken''] (data r0) = None"
    by (simp add: d0)
  then have n0: "\<not> (success r0
      \<and> (\<exists>t. lookup_path [''data'', ''accessToken''] (data r0) = Some t \<and> truthy t))"
    by simp
  from login_installs_bearer_logout_removes[of "answer 200 (JDict [(''data'', JDict [])])" no_str
      test_settings logged_in_client "''user@example.com''" "''Test@12345''" c0 r0] in0 n0
  have "headers (session c0) = headers (session logged_in_client)"
    by blast
  with in0 s0 l0 have "\<exists>c0 r0.
     login (answer 200 (JDict [(''data'', JDict [])])) no_str test_settings logged_in_client
         ''user@example.com'' ''Test@12345'' = Inr (c0, r0)
     \<and> success r0
     \<and> lookup_path [''data'', ''accessToken''] (data r0) = None
     \<and> headers (session c0) = headers (session logged_in_client)"
    by blast
  with first show ?thesis by blast
qed

text \<open>
  A login that the server answers with status 200 and a body without a token returns a
  success envelope, and the client has no \<open>Authorization\<close> header afterwards.
\<close>

theorem login_without_token_counterexample:
  "login (answer 200 (JDict [(''data'', JDict [])])) no_str test_settings fresh_client
       ''user@example.com'' ''Test@12345''
     = Inr (fresh_client,
            \<lparr>status_code = 200, data = JDict [(''data'', JDict [])], success = True,
             raw_response = \<lparr>r_status_code = 200, r_json = Some (JDict [(''data'', JDict [])]),
                             r_text = []\<rparr>\<rparr>)
   \<and> \<not> headers_contains (headers (session fresh_client)) ''Authorization''"
  using fresh_client_no_authorization
  by (simp add: login_def post_def request_def answer_def Response_ok_def APIResponse_json_def)

text \<open>
  Claim C10. Whenever the server's answer to the logout call arrives, with any status
  code, \<open>logout\<close> returns the envelope of that answer and the client has no
  \<open>Authorization\<close> header afterwards; nothing is required of the headers before the call.
\<close>

theorem logout_always_removes_authorization:
  assumes "send (session c) ''POST'' (join_url c ''auth/logout'') (setdefault_timeout st no_kwargs)
             = Inr (response, jar)"
  shows "\<exists>c' r. logout send st c = Inr (c', r)
           \<and> raw_response r = response
           \<and> success r = Response_ok response
           \<and> \<not> headers_contains (headers (session c')) ''Authorization''"
  using post_Inr[where send = send, OF assms]
  by (simp add: logout_def headers_pop_not_contains)

theorem logout_always_removes_authorization_witness:
  "answer 500 (JStr ''Internal Server Error'') (session fresh_client) ''POST''
       (join_url fresh_client ''auth/logout'') (setdefault_timeout test_settings no_kwargs)
     = Inr (\<lparr>r_status_code = 500, r_json = Some (JStr ''Internal Server Error''), r_text = []\<rparr>,
            cookies (session fresh_client))
   \<and> \<not> headers_contains (headers (session fresh_client)) ''Authorization''
   \<and> (\<exists>c' r. logout (answer 500 (JStr ''Internal Server Error'')) test_settings fresh_client = Inr (c', r)
         \<and> \<not> success r
         \<and> \<not> headers_contains (headers (session c')) ''Authorization'')"
proof -
  have h: "answer 500 (JStr ''Internal Server Error'') (session fresh_client) ''POST''
       (join_url fresh_client ''auth/logout'') (setdefault_timeout test_settings no_kwargs)
     = Inr (\<lparr>r_status_code = 500, r_json = Some (JStr ''Internal Server Error''), r_text = []\<rparr>,
            cookies (session fresh_client))"
    by (simp add: answer_def)
  from logout_always_removes_authorization[where send = "answer 500 (JStr ''Internal Server Error'')"
      and c = fresh_client and st = test_settings, OF h] h fresh_client_no_authorization
  show ?thesis by (auto simp: Response_ok_def)
qed

section \<open>Building blocks and posts\<close>

lemma fill_content_fields:
  "b_type (fst (fill_content F g b)) = b_type b"
  by (simp add: fill_content_def split: prod.splits)

lemma build_type:
  "map_of (fst (BlockBuilder_build F g b)) ''type'' = Some (JStr (b_type b))"
  using fill_content_fields[of F g b]
  by (auto simp: BlockBuilder_build_def BlockData_to_dict_def split: prod.splits)

lemma add_random_text_block_blocks:
  "\<exists>block. blocks (fst (add_random_text_block F g p)) = blocks p @ [block]
      \<and> block_type_of block = Some (JStr ''TEXT'')"
proof -
  obtain b g1 where w: "with_random_text F g (as_text BlockBuilder_init) = (b, g1)"
    by (cases "with_random_text F g (as_text BlockBuilder_init)")
  then have t: "b_type b = ''TEXT''"
    by (auto simp: with_random_text_def as_text_def split: prod.splits)
  let ?b = "with_size 12 100 (at_position 0 (int (length (blocks p)) * 100) b)"
  have t': "b_type ?b = ''TEXT''" using t by (simp add: with_size_def at_position_def)
  obtain block g2 where bb: "BlockBuilder_build F g1 ?b = (block, g2)"
    by (cases "BlockBuilder_build F g1 ?b")
  have "map_of block ''type'' = Some (JStr ''TEXT'')"
    using build_type[of F g1 ?b] bb t' by simp
  then show ?thesis using w bb
    by (simp add: add_random_text_block_def Let_def)
qed

lemma add_random_text_block_keeps:
  "author_id (fst (add_random_text_block F g p)) = author_id p"
  "title (fst (add_random_text_block F g p)) = title p"
  by (simp_all add: add_random_text_block_def Let_def split: prod.splits)

lemma loop_props:
  "length (blocks (fst (random_text_blocks_loop F n g p))) = length (blocks p) + n
   \<and> author_id (fst (random_text_blocks_loop F n g p)) = author_id p
   \<and> title (fst (random_text_blocks_loop F n g p)) = title p
   \<and> (\<forall>b \<in> set (blocks (fst (random_text_blocks_loop F n g p))).
         b \<in> set (blocks p) \<or> block_type_of b = Some (JStr ''TEXT''))"
proof (induction n arbitrary: g p)
  case 0
  then show ?case by simp
next
  case (Suc n)
  obtain p' g' where s: "add_random_text_block F g p = (p', g')"
    by (cases "add_random_text_block F g p")
  from add_random_text_block_blocks[of F g p] s obtain block where
    b: "blocks p' = blocks p @ [block]" "block_type_of block = Some (JStr ''TEXT'')" by auto
  from add_random_text_block_keeps[of F g p] s have k: "author_id p' = author_id p" "title p' = title p"
    by auto
  from Suc.IH[of g' p'] s b k show ?case by auto
qed

lemma add_random_text_blocks_props:
  "length (blocks (fst (add_random_text_blocks F g n p))) = length (blocks p) + nat n
   \<and> author_id (fst (add_random_text_blocks F g n p)) = author_id p
   \<and> title (fst (add_random_text_blocks F g n p)) = title p
   \<and> (\<forall>b \<in> set (blocks (fst (add_random_text_blocks F g n p))).
         b \<in> set (blocks p) \<or> block_type_of b = Some (JStr ''TEXT''))"
  unfolding add_random_text_blocks_def by (rule loop_props)

lemma build_eq: "PostBuilder_build F g p =
   (if blocks (fst (fill_title F g p)) = []
    then add_random_text_blocks F (snd (fill_title F g p)) 1 (fst (fill_title F g p))
    else fill_title F g p)"
  by (simp add: PostBuilder_build_def split: prod.splits)

lemma fill_title_keeps:
  "blocks (fst (fill_title F g p)) = blocks p"
  "author_id (fst (fill_title F g p)) = author_id p"
  "(\<forall>g. rstrip CHR ''.'' (fst (fake_sentence F 6 g)) \<noteq> []) \<Longrightarrow> title (fst (fill_title F g p)) \<noteq> []"
  by (auto simp: fill_title_def split: prod.splits) (metis fst_conv)

lemma PostBuilder_build_props:
  "length (blocks (fst (PostBuilder_build F g p))) = (if blocks p = [] then 1 else length (blocks p))
   \<and> author_id (fst (PostBuilder_build F g p)) = author_id p
   \<and> (\<forall>b \<in> set (blocks (fst (PostBuilder_build F g p))).
         b \<in> set (blocks p) \<or> block_type_of b = Some (JStr ''TEXT''))
   \<and> ((\<forall>g. rstrip CHR ''.'' (fst (fake_sentence F 6 g)) \<noteq> []) \<longrightarrow> title (fst (PostBuilder_build F g p)) \<noteq> [])"
  using add_random_text_blocks_props[of F "snd (fill_title F g p)" 1 "fst (fill_title F g p)"]
    fill_title_keeps[where F = F and g = g and p = p]
  by (auto simp: build_eq)

lemma with_random_title_keeps:
  "blocks (fst (with_random_title F g p)) = blocks p"
  "author_id (fst (with_random_title F g p)) = author_id p"
  by (simp_all add: with_random_title_def split: prod.splits)

lemma create_quick_post_eq:
  "create_quick_post F g a n =
     PostBuilder_build F
       (snd (add_random_text_blocks F (snd (with_random_title F g (with_author a PostBuilder_init))) n
               (fst (with_random_title F g (with_author a PostBuilder_init)))))
       (fst (add_random_text_blocks F (snd (with_random_title F g (with_author a PostBuilder_init))) n
               (fst (with_random_title F g (with_author a PostBuilder_init)))))"
  by (simp add: create_quick_post_def split: prod.splits)

text \<open>
  Claim C5, at the block type QUOTE: a builder set to QUOTE with no content builds a block
  whose \<open>content\<close> entry is the empty string, whatever the text generator returns.
\<close>

theorem quote_block_content_stays_empty:
  "b_content (as_quote BlockBuilder_init) = []
   \<and> map_of (fst (BlockBuilder_build F g (as_quote BlockBuilder_init))) ''type'' = Some (JStr ''QUOTE'')
   \<and> map_of (fst (BlockBuilder_build F g (as_quote BlockBuilder_init))) ''content'' = Some (JStr [])"
  by (simp add: BlockBuilder_build_def fill_content_def as_quote_def BlockBuilder_init_def
      BlockData_to_dict_def)

section \<open>Serialising a post\<close>

lemma optional_int_keys: "k' \<in> fst ` set (optional_int k v) \<longleftrightarrow> k' = k \<and> (\<exists>n. v = Some n \<and> n \<noteq> 0)"
  by (cases v) auto

lemma optional_str_keys: "k' \<in> fst ` set (optional_str k v) \<longleftrightarrow> k' = k \<and> (\<exists>s. v = Some s \<and> s \<noteq> [])"
  by (cases v) auto

lemma optional_int_not_null: "(k', JNull) \<notin> set (optional_int k v)"
  by (cases v) auto

lemma optional_str_not_null: "(k', JNull) \<notin> set (optional_str k v)"
  by (cases v) auto

text \<open>
  Claim C6. For every \<open>PostData\<close>, \<open>to_dict()\<close> has the keys \<open>title\<close>, \<open>type\<close>,
  \<open>authorId\<close> and \<open>blocks\<close>; each of \<open>communityId\<close>, \<open>originalPostId\<close>,
  \<open>hashtagIds\<close> and \<open>thumbnailUrl\<close> is a key exactly when its field holds a value
  that is not zero or empty, so only when the field was set; an unset field is absent, and
  no key is mapped to \<open>None\<close>.
\<close>

theorem PostData_to_dict_omits_unset:
  "{''title'', ''type'', ''authorId'', ''blocks''} \<subseteq> fst ` set (PostData_to_dict p)
   \<and> (''communityId'' \<in> fst ` set (PostData_to_dict p) \<longleftrightarrow> (\<exists>n. community_id p = Some n \<and> n \<noteq> 0))
   \<and> (''originalPostId'' \<in> fst ` set (PostData_to_dict p) \<longleftrightarrow> (\<exists>n. original_post_id p = Some n \<and> n \<noteq> 0))
   \<and> (''hashtagIds'' \<in> fst ` set (PostData_to_dict p) \<longleftrightarrow> hashtag_ids p \<noteq> [])
   \<and> (''thumbnailUrl'' \<in> fst ` set (PostData_to_dict p) \<longleftrightarrow> (\<exists>s. thumbnail_url p = Some s \<and> s \<noteq> []))
   \<and> (community_id p = None \<longrightarrow> ''communityId'' \<notin> fst ` set (PostData_to_dict p))
   \<and> (original_post_id p = None \<longrightarrow> ''originalPostId'' \<notin> fst ` set (PostData_to_dict p))
   \<and> (hashtag_ids p = [] \<longrightarrow> ''hashtagIds'' \<notin> fst ` set (PostData_to_dict p))
   \<and> (thumbnail_url p = None \<longrightarrow> ''thumbnailUrl'' \<notin> fst ` set (PostData_to_dict p))
   \<and> (\<forall>k. (k, JNull) \<notin> set (PostData_to_dict p))"
proof -
  have keys: "fst ` set (PostData_to_dict p) =
      {''title'', ''type'', ''authorId'', ''blocks''}
      \<union> fst ` set (optional_int ''communityId'' (community_id p))
      \<union> fst ` set (optional_int ''originalPostId'' (original_post_id p))
      \<union> (if hashtag_ids p \<noteq> [] then {''hashtagIds''} else {})
      \<union> fst ` set (optional_str ''thumbnailUrl'' (thumbnail_url p))"
    by (auto simp: PostData_to_dict_def image_Un)
  have nn: "\<forall>k. (k, JNull) \<notin> set (PostData_to_dict p)"
    by (simp add: PostData_to_dict_def optional_int_not_null optional_str_not_null)
  show ?thesis
    unfolding keys using nn
    by (simp add: optional_int_keys optional_str_keys)
qed

theorem PostData_to_dict_omits_unset_witness:
  "community_id plain_post = None \<and> original_post_id plain_post = None
   \<and> hashtag_ids plain_post = [] \<and> thumbnail_url plain_post = None
   \<and> ''title'' \<in> fst ` set (PostData_to_dict plain_post)
   \<and> ''communityId'' \<notin> fst ` set (PostData_to_dict plain_post)
   \<and> ''originalPostId'' \<notin> fst ` set (PostData_to_dict plain_post)
   \<and> ''hashtagIds'' \<notin> fst ` set (PostData_to_dict plain_post)
   \<and> ''thumbnailUrl'' \<notin> fst ` set (PostData_to_dict plain_post)
   \<and> community_id sample_post = Some 5
   \<and> ''communityId'' \<in> fst ` set (PostData_to_dict sample_post)
   \<and> ''hashtagIds'' \<in> fst ` set (PostData_to_dict sample_post)
   \<and> ''thumbnailUrl'' \<in> fst ` set (PostData_to_dict sample_post)
   \<and> ''originalPostId'' \<notin> fst ` set (PostData_to_dict sample_post)"
proof -
  have u: "community_id plain_post = None" "original_post_id plain_post = None"
    "hashtag_ids plain_post = []" "thumbnail_url plain_post = None"
    by (simp_all add: plain_post_def with_title_def PostBuilder_init_def)
  have v: "community_id sample_post = Some 5" "original_post_id sample_post = None"
    "hashtag_ids sample_post = [1, 2]" "thumbnail_url sample_post = Some ''https://example.com/t.png''"
    by (simp_all add: sample_post_def with_thumbnail_def with_hashtags_def as_community_def
        with_title_def PostBuilder_init_def)
  from PostData_to_dict_omits_unset[of plain_post] PostData_to_dict_omits_unset[of sample_post] u v
  show ?thesis by simp
qed

section \<open>Building a post\<close>






text \<open>
  Claim C7, as the code has it. \<open>create_quick_post(author_id, blocks_count = N)\<close> returns a
  post of the given author whose blocks all have type TEXT; it has exactly \<open>N\<close> blocks
  when \<open>N\<close> is at least one, and exactly one block when \<open>N\<close> is zero (or below),
  because \<open>build()\<close> never leaves the list empty. Its title is not empty as long as the
  text generator's sentences have something in front of their final full stops.
\<close>

theorem create_quick_post_blocks:
  "author_id (fst (create_quick_post F g a n)) = a
   \<and> length (blocks (fst (create_quick_post F g a n))) = (if 1 \<le> n then nat n else 1)
   \<and> (\<forall>b \<in> set (blocks (fst (create_quick_post F g a n))). block_type_of b = Some (JStr ''TEXT''))
   \<and> ((\<forall>g. rstrip CHR ''.'' (fst (fake_sentence F 6 g)) \<noteq> [])
        \<longrightarrow> title (fst (create_quick_post F g a n)) \<noteq> [])"
proof -
  let ?p1 = "fst (with_random_title F g (with_author a PostBuilder_init))"
  let ?g1 = "snd (with_random_title F g (with_author a PostBuilder_init))"
  let ?p2 = "fst (add_random_text_blocks F ?g1 n ?p1)"
  let ?g2 = "snd (add_random_text_blocks F ?g1 n ?p1)"
  have p1: "blocks ?p1 = []" "author_id ?p1 = a"
    by (simp_all add: with_random_title_keeps with_author_def PostBuilder_init_def)
  have p2: "length (blocks ?p2) = nat n" "author_id ?p2 = a"
    "\<forall>b \<in> set (blocks ?p2). block_type_of b = Some (JStr ''TEXT'')"
    using add_random_text_blocks_props[of F ?g1 n ?p1] p1 by auto
  have "blocks ?p2 = [] \<longleftrightarrow> nat n = 0" using p2(1) by (cases "blocks ?p2") auto
  then have e: "blocks ?p2 = [] \<longleftrightarrow> \<not> 1 \<le> n" by auto
  show ?thesis
    using PostBuilder_build_props[of F ?g2 ?p2] p2 e
    by (auto simp: create_quick_post_eq)
qed

theorem create_quick_post_blocks_witness:
  "(\<forall>g. rstrip CHR ''.'' (fst (fake_sentence fixed_faker 6 g)) \<noteq> [])
   \<and> author_id (fst (create_quick_post fixed_faker 0 7 2)) = 7
   \<and> length (blocks (fst (create_quick_post fixed_faker 0 7 2))) = 2
   \<and> block_type_of (blocks (fst (create_quick_post fixed_faker 0 7 2)) ! 0) = Some (JStr ''TEXT'')
   \<and> block_type_of (blocks (fst (create_quick_post fixed_faker 0 7 2)) ! 1) = Some (JStr ''TEXT'')
   \<and> title (fst (create_quick_post fixed_faker 0 7 2)) \<noteq> []"
proof -
  have h: "\<forall>g. rstrip CHR ''.'' (fst (fake_sentence fixed_faker 6 g)) \<noteq> []"
    by (simp add: fixed_faker_def rstrip_def)
  note t = create_quick_post_blocks[of fixed_faker 0 7 2]
  from t have l: "length (blocks (fst (create_quick_post fixed_faker 0 7 2))) = 2" by simp
  then have "blocks (fst (create_quick_post fixed_faker 0 7 2)) ! 0 \<in> set (blocks (fst (create_quick_post fixed_faker 0 7 2)))"
    "blocks (fst (create_quick_post fixed_faker 0 7 2)) ! 1 \<in> set (blocks (fst (create_quick_post fixed_faker 0 7 2)))"
    by simp_all
  with t h l show ?thesis by blast
qed

text \<open>With \<open>blocks_count = 0\<close> the post has one block, not none.\<close>

theorem create_quick_post_counterexample:
  "(0::int) \<le> 0
   \<and> length (blocks (fst (create_quick_post fixed_faker 0 7 0))) = 1
   \<and> length (blocks (fst (create_quick_post fixed_faker 0 7 0))) \<noteq> nat 0"
  by (simp add: create_quick_post_def with_random_title_def with_author_def PostBuilder_init_def
      add_random_text_blocks_def PostBuilder_build_def fill_title_def fixed_faker_def
      add_random_text_block_def Let_def split: prod.splits)

end
